theory Spec2Isabelle
  imports Complex_Main "HOL-Library.Sublist"
begin

section \<open>Python values and exceptions\<close>

text \<open>
  The laptop price predictor normalises free-text hardware descriptors with pandas,
  string methods and one regular expression. Exceptions are values of type \<open>error\<close>;
  a computation that may raise returns \<open>error + 'a\<close> with \<open>Inl\<close> for the exception.
  \<open>MyException\<close> is the wrapper the components raise from their \<open>except\<close> clauses.
  Strings are ASCII text, one \<open>char\<close> per code point. Python floats are read as the
  real numbers they denote; the literals \<open>inf\<close> and \<open>nan\<close> and missing table cells
  denote no real number and are not part of the model.
\<close>

datatype error =
    KeyError | ValueError | IndexError | AttributeError | TypeError | OverflowError
  | MyException error

definition bind_e :: "error + 'a \<Rightarrow> ('a \<Rightarrow> error + 'b) \<Rightarrow> error + 'b" where
  "bind_e m k = (case m of Inl e \<Rightarrow> Inl e | Inr x \<Rightarrow> k x)"

section \<open>String primitives\<close>

text \<open>\<open>sub in s\<close>: the substring test, scanning start positions from the left.\<close>

fun str_contains :: "string \<Rightarrow> string \<Rightarrow> bool" where
  "str_contains sub [] = (sub = [])"
| "str_contains sub (c # cs) = (prefix sub (c # cs) \<or> str_contains sub cs)"

text \<open>\<open>s.split(sep)\<close> for a one-character separator: always at least one part.\<close>

fun split_on :: "char \<Rightarrow> string \<Rightarrow> string list" where
  "split_on sep [] = [[]]"
| "split_on sep (c # cs) =
     (if c = sep then [] # split_on sep cs
      else (case split_on sep cs of [] \<Rightarrow> [[c]] | p # ps \<Rightarrow> (c # p) # ps))"

text \<open>
  The ASCII characters for which \<open>str.isspace\<close> holds: tab, line feed, vertical tab,
  form feed, carriage return, the four separators 0x1C to 0x1F, and the space.
\<close>

definition is_space :: "char \<Rightarrow> bool" where
  "is_space c = (c \<in> set [CHR 0x09, CHR 0x0A, CHR 0x0B, CHR 0x0C, CHR 0x0D,
                           CHR 0x1C, CHR 0x1D, CHR 0x1E, CHR 0x1F, CHR '' ''])"

definition non_space :: "char \<Rightarrow> bool" where
  "non_space c = (\<not> is_space c)"

text \<open>\<open>s.split()\<close>: the maximal runs of non-whitespace characters, in order.\<close>

function split_ws :: "string \<Rightarrow> string list" where
  "split_ws s =
     (let r = dropWhile is_space s
      in if r = [] then []
         else takeWhile non_space r # split_ws (dropWhile non_space r))"
  by pat_completeness auto
termination
proof (relation "measure length")
  show "wf (measure length)" by simp
next
  fix s r :: string
  assume r: "r = dropWhile is_space s" and ne: "r \<noteq> []"
  from ne obtain c cs where rc: "r = c # cs" by (cases r) auto
  have "\<not> is_space c" using r rc by (metis dropWhile_eq_Cons_conv)
  then have "length (dropWhile non_space r) \<le> length cs"
    using rc length_dropWhile_le [of non_space cs] by (simp add: non_space_def)
  moreover have "length r \<le> length s"
    using r length_dropWhile_le [of is_space s] by simp
  ultimately show "(dropWhile non_space r, s) \<in> measure length"
    using rc by simp
qed

text \<open>\<open>sep.join(xs)\<close>.\<close>

fun join :: "string \<Rightarrow> string list \<Rightarrow> string" where
  "join sep [] = []"
| "join sep [x] = x"
| "join sep (x # y # ys) = x @ sep @ join sep (y # ys)"

text \<open>
  \<open>s.replace(old, new)\<close>: every non-overlapping occurrence, leftmost first. With an
  empty \<open>old\<close> Python puts \<open>new\<close> before every character and at the end.
\<close>

function str_replace :: "string \<Rightarrow> string \<Rightarrow> string \<Rightarrow> string" where
  "str_replace old new s =
     (if old = [] then new @ concat (map (\<lambda>c. c # new) s)
      else if s = [] then []
      else if prefix old s then new @ str_replace old new (drop (length old) s)
      else hd s # str_replace old new (tl s))"
  by pat_completeness auto
termination
  by (relation "measure (\<lambda>(old, new, s). length s)") (auto simp: neq_Nil_conv)

text \<open>\<open>s.strip()\<close>.\<close>

definition strip :: "string \<Rightarrow> string" where
  "strip s = rev (dropWhile is_space (rev (dropWhile is_space s)))"

section \<open>Number literals\<close>

definition is_digit :: "char \<Rightarrow> bool" where
  "is_digit c = (c \<in> set ''0123456789'')"

definition digit_val :: "char \<Rightarrow> nat" where
  "digit_val c = of_char c - 48"

definition digits_val :: "string \<Rightarrow> nat" where
  "digits_val ds = foldl (\<lambda>a c. 10 * a + digit_val c) 0 ds"

text \<open>
  The digit part of a Python number literal: digits, with single underscores allowed
  between two digits. The result is the digits without the underscores.
\<close>

fun digitpart :: "string \<Rightarrow> string option" where
  "digitpart [] = None"
| "digitpart [c] = (if is_digit c then Some [c] else None)"
| "digitpart (c # d # ds) =
     (if \<not> is_digit c then None
      else if d = CHR ''_'' then map_option ((#) c) (digitpart ds)
      else map_option ((#) c) (digitpart (d # ds)))"

definition split_sign :: "string \<Rightarrow> bool \<times> string" where
  "split_sign t =
     (case t of [] \<Rightarrow> (False, [])
      | c # r \<Rightarrow> if c = CHR ''-'' then (True, r)
                 else if c = CHR ''+'' then (False, r) else (False, t))"

text \<open>\<open>int(s)\<close> for a string: \<open>None\<close> stands for the ValueError.\<close>

definition py_int :: "string \<Rightarrow> int option" where
  "py_int s =
     (case split_sign (strip s) of (neg, body) \<Rightarrow>
        (case digitpart body of None \<Rightarrow> None
         | Some ds \<Rightarrow> Some (if neg then - int (digits_val ds) else int (digits_val ds))))"

text \<open>The text before the first character satisfying \<open>P\<close>, and the text after it.\<close>

fun break_at :: "(char \<Rightarrow> bool) \<Rightarrow> string \<Rightarrow> string \<times> string option" where
  "break_at P [] = ([], None)"
| "break_at P (c # cs) =
     (if P c then ([], Some cs)
      else (case break_at P cs of (a, b) \<Rightarrow> (c # a, b)))"

text \<open>
  The mantissa of a float literal: \<open>digits\<close>, \<open>digits.\<close>, \<open>digits.digits\<close> or \<open>.digits\<close>.
\<close>

definition mantissa :: "string \<Rightarrow> real option" where
  "mantissa m =
     (case break_at (\<lambda>c. c = CHR ''.'') m of
        (ip, None) \<Rightarrow> map_option (\<lambda>ds. real (digits_val ds)) (digitpart ip)
      | (ip, Some fp) \<Rightarrow>
          if ip = [] then map_option (\<lambda>fs. real (digits_val fs) / 10 ^ length fs) (digitpart fp)
          else (case digitpart ip of None \<Rightarrow> None
                | Some ds \<Rightarrow>
                    if fp = [] then Some (real (digits_val ds))
                    else map_option (\<lambda>fs. real (digits_val ds) + real (digits_val fs) / 10 ^ length fs)
                           (digitpart fp)))"

text \<open>The exponent of a float literal, after the \<open>e\<close>: an optional sign and digits.\<close>

definition exponent :: "string \<Rightarrow> int option" where
  "exponent x =
     (case split_sign x of (neg, body) \<Rightarrow>
        (case digitpart body of None \<Rightarrow> None
         | Some ds \<Rightarrow> Some (if neg then - int (digits_val ds) else int (digits_val ds))))"

text \<open>\<open>float(s)\<close> for a string denoting a finite number: \<open>None\<close> stands for the ValueError.\<close>

definition py_float :: "string \<Rightarrow> real option" where
  "py_float s =
     (case split_sign (strip s) of (neg, body) \<Rightarrow>
        (case break_at (\<lambda>c. c = CHR ''e'' \<or> c = CHR ''E'') body of
           (m, None) \<Rightarrow> map_option (\<lambda>v. if neg then - v else v) (mantissa m)
         | (m, Some x) \<Rightarrow>
             (case (mantissa m, exponent x) of
                (Some v, Some k) \<Rightarrow>
                  Some ((if neg then - v else v) * (if 0 \<le> k then 10 ^ nat k else 1 / 10 ^ nat (- k)))
              | _ \<Rightarrow> None)))"

text \<open>
  \<open>re.search(r'(\d+\.?\d*)', part)\<close>: the match starts at the first digit, takes the whole
  run of digits, then a dot if one follows, then the digits after the dot. The result is
  the text of group 1.
\<close>

fun re_search_number :: "string \<Rightarrow> string option" where
  "re_search_number [] = None"
| "re_search_number (c # cs) =
     (if is_digit c
      then Some (case dropWhile is_digit cs of
                   [] \<Rightarrow> c # takeWhile is_digit cs
                 | d # r \<Rightarrow> if d = CHR ''.''
                            then c # takeWhile is_digit cs @ d # takeWhile is_digit r
                            else c # takeWhile is_digit cs)
      else re_search_number cs)"

section \<open>The per-value rules of the feature normaliser\<close>

text \<open>
  \<open>extract_storage\<close> of \<open>process_memory\<close>: the loop over the parts returns from the first
  part that contains the storage type.
\<close>

fun extract_loop :: "string \<Rightarrow> string list \<Rightarrow> error + real" where
  "extract_loop storage_type [] = Inr 0"
| "extract_loop storage_type (part # parts) =
     (if str_contains storage_type part
      then bind_e (case re_search_number part of
                     None \<Rightarrow> Inr 0
                   | Some g \<Rightarrow> (case py_float g of None \<Rightarrow> Inl ValueError | Some v \<Rightarrow> Inr v))
             (\<lambda>size. let unit = (if str_contains ''TB'' part then ''TB'' else ''GB'')
                      in Inr (if unit = ''TB'' then size * 1000 else size))
      else extract_loop storage_type parts)"

definition extract_storage :: "string \<Rightarrow> string \<Rightarrow> error + real" where
  "extract_storage mem_str storage_type = extract_loop storage_type (split_on CHR ''+'' mem_str)"

text \<open>The two steps of \<open>process_cpu\<close> on one descriptor.\<close>

definition cpu_candidate :: "string \<Rightarrow> string" where
  "cpu_candidate x = join '' '' (take 3 (split_ws x))"

definition categorize_cpu :: "string \<Rightarrow> error + string" where
  "categorize_cpu text =
     (if text \<in> set [''Intel Core i7'', ''Intel Core i5'', ''Intel Core i3''] then Inr text
      else (case split_ws text of
              [] \<Rightarrow> Inl IndexError
            | t # ts \<Rightarrow> if t = ''Intel'' then Inr ''Other Intel Processor''
                        else Inr ''AMD Processor''))"

text \<open>The lambda of \<open>process_gpu\<close>: \<open>x.split()[0]\<close>.\<close>

definition gpu_first_token :: "string \<Rightarrow> error + string" where
  "gpu_first_token x = (case split_ws x of [] \<Rightarrow> Inl IndexError | t # ts \<Rightarrow> Inr t)"

definition simplify_os :: "string \<Rightarrow> string" where
  "simplify_os os =
     (if os \<in> set [''macOS'', ''Mac OS X''] then ''mac''
      else if str_contains ''Windows'' os then ''windows''
      else ''other'')"

section \<open>Data frames\<close>

text \<open>
  A table cell is a string, an integer or a float. A series is the list of the cells of
  one column, top to bottom; a frame is the list of its columns, left to right, each
  with its name. \<open>read_csv\<close> gives a column one kind of cell throughout.
\<close>

datatype cell = S string | I int | F real

type_synonym series = "cell list"

type_synonym frame = "(string \<times> series) list"

definition columns :: "frame \<Rightarrow> string list" where
  "columns df = map fst df"

text \<open>\<open>df[name]\<close>.\<close>

definition getitem :: "frame \<Rightarrow> string \<Rightarrow> error + series" where
  "getitem df name = (case map_of df name of None \<Rightarrow> Inl KeyError | Some col \<Rightarrow> Inr col)"

text \<open>
  \<open>df[name] = col\<close>: an existing column is replaced where it stands, a new column is
  added at the right end.
\<close>

fun setitem :: "frame \<Rightarrow> string \<Rightarrow> series \<Rightarrow> frame" where
  "setitem [] name col = [(name, col)]"
| "setitem ((n, c) # df) name col =
     (if n = name then (name, col) # df else (n, c) # setitem df name col)"

text \<open>\<open>df.drop(columns=names)\<close>: a label that is no column raises KeyError.\<close>

definition drop_cols :: "frame \<Rightarrow> string list \<Rightarrow> error + frame" where
  "drop_cols df names =
     (if list_all (\<lambda>n. n \<in> set (columns df)) names
      then Inr (filter (\<lambda>nc. fst nc \<notin> set names) df)
      else Inl KeyError)"

text \<open>
  \<open>col.apply(f)\<close>: the function is called on the cells from the top; the first
  exception ends the call.
\<close>

fun series_apply :: "(cell \<Rightarrow> error + cell) \<Rightarrow> series \<Rightarrow> error + series" where
  "series_apply f [] = Inr []"
| "series_apply f (x # xs) =
     bind_e (f x) (\<lambda>y. bind_e (series_apply f xs) (\<lambda>ys. Inr (y # ys)))"

text \<open>The \<open>.str\<close> accessor exists on a column of strings only.\<close>

fun str_values :: "series \<Rightarrow> error + string list" where
  "str_values [] = Inr []"
| "str_values (S s # xs) = bind_e (str_values xs) (\<lambda>ss. Inr (s # ss))"
| "str_values (x # xs) = Inl AttributeError"

text \<open>\<open>col.str.replace(old, new)\<close>, still a column of strings.\<close>

definition str_replace_col :: "string \<Rightarrow> string \<Rightarrow> series \<Rightarrow> error + series" where
  "str_replace_col old new col =
     bind_e (str_values col) (\<lambda>ss. Inr (map (\<lambda>s. S (str_replace old new s)) ss))"

text \<open>
  \<open>col.astype(int)\<close> and \<open>col.astype(float)\<close>. A string is parsed as \<open>int\<close> and
  \<open>float\<close> parse it; the integers are 64-bit.
\<close>

definition to_int64 :: "cell \<Rightarrow> error + cell" where
  "to_int64 x =
     (case x of
        S s \<Rightarrow> (case py_int s of
                  None \<Rightarrow> Inl ValueError
                | Some n \<Rightarrow> if - (2 ^ 63) \<le> n \<and> n < 2 ^ 63 then Inr (I n) else Inl OverflowError)
      | I n \<Rightarrow> Inr (I n)
      | F r \<Rightarrow> Inr (I (if 0 \<le> r then \<lfloor>r\<rfloor> else \<lceil>r\<rceil>)))"

definition to_float64 :: "cell \<Rightarrow> error + cell" where
  "to_float64 x =
     (case x of
        S s \<Rightarrow> (case py_float s of None \<Rightarrow> Inl ValueError | Some r \<Rightarrow> Inr (F r))
      | I n \<Rightarrow> Inr (F (real_of_int n))
      | F r \<Rightarrow> Inr (F r))"

definition astype_int :: "series \<Rightarrow> error + series" where
  "astype_int col = series_apply to_int64 col"

definition astype_float :: "series \<Rightarrow> error + series" where
  "astype_float col = series_apply to_float64 col"

section \<open>The feature normaliser on frames\<close>

text \<open>
  Each method is read here as the function from the contents of the frame it is given to
  the contents of the frame it returns. The classes DataTransformation and
  ModelEvaluation hold the same text for \<open>clean_data\<close>, \<open>process_screen_resolution\<close>,
  \<open>process_cpu\<close>, \<open>process_memory\<close>, \<open>process_gpu\<close> and \<open>process_os\<close>; one definition
  stands for both copies. Their \<open>drop_id_column\<close> methods differ and are kept apart.
\<close>

definition clean_data :: "frame \<Rightarrow> error + frame" where
  "clean_data df =
     bind_e (getitem df ''Ram'') (\<lambda>ram.
     bind_e (str_replace_col ''GB'' [] ram) (\<lambda>ram.
     bind_e (astype_int ram) (\<lambda>ram.
     let df = setitem df ''Ram'' ram in
     bind_e (getitem df ''Weight'') (\<lambda>weight.
     bind_e (str_replace_col ''kg'' [] weight) (\<lambda>weight.
     bind_e (astype_float weight) (\<lambda>weight.
     Inr (setitem df ''Weight'' weight)))))))"

text \<open>\<open>lambda x: 1 if tok in x else 0\<close>; the test \<open>in\<close> needs a string.\<close>

definition flag_of :: "string \<Rightarrow> cell \<Rightarrow> error + cell" where
  "flag_of tok x =
     (case x of S s \<Rightarrow> Inr (I (if str_contains tok s then 1 else 0)) | _ \<Rightarrow> Inl TypeError)"

definition process_screen_resolution :: "frame \<Rightarrow> error + frame" where
  "process_screen_resolution df =
     bind_e (getitem df ''ScreenResolution'') (\<lambda>sr.
     bind_e (series_apply (flag_of ''Touchscreen'') sr) (\<lambda>touch.
     let df = setitem df ''Touchscreen'' touch in
     bind_e (getitem df ''ScreenResolution'') (\<lambda>sr.
     bind_e (series_apply (flag_of ''IPS'') sr) (\<lambda>ips.
     let df = setitem df ''IPS'' ips in
     drop_cols df [''ScreenResolution'', ''Inches'']))))"

text \<open>\<open>lambda x: ' '.join(x.split()[0:3])\<close> and \<open>categorize_cpu\<close> on cells.\<close>

definition cpu_candidate_cell :: "cell \<Rightarrow> error + cell" where
  "cpu_candidate_cell x = (case x of S s \<Rightarrow> Inr (S (cpu_candidate s)) | _ \<Rightarrow> Inl AttributeError)"

definition categorize_cpu_cell :: "cell \<Rightarrow> error + cell" where
  "categorize_cpu_cell x =
     (case x of S s \<Rightarrow> bind_e (categorize_cpu s) (\<lambda>t. Inr (S t)) | _ \<Rightarrow> Inl AttributeError)"

definition process_cpu :: "frame \<Rightarrow> error + frame" where
  "process_cpu df =
     bind_e (getitem df ''Cpu'') (\<lambda>cpu.
     bind_e (series_apply cpu_candidate_cell cpu) (\<lambda>cand.
     let df = setitem df ''cpu_name'' cand in
     bind_e (getitem df ''cpu_name'') (\<lambda>cand.
     bind_e (series_apply categorize_cpu_cell cand) (\<lambda>name.
     let df = setitem df ''cpu_name'' name in
     drop_cols df [''Cpu'']))))"

text \<open>\<open>lambda x: extract_storage(x, kind)\<close>; the column of sizes is a float column.\<close>

definition extract_storage_cell :: "string \<Rightarrow> cell \<Rightarrow> error + cell" where
  "extract_storage_cell kind x =
     (case x of S s \<Rightarrow> bind_e (extract_storage s kind) (\<lambda>v. Inr (F v)) | _ \<Rightarrow> Inl AttributeError)"

definition process_memory :: "frame \<Rightarrow> error + frame" where
  "process_memory df =
     bind_e (getitem df ''Memory'') (\<lambda>mem.
     bind_e (series_apply (extract_storage_cell ''SSD'') mem) (\<lambda>ssd.
     let df = setitem df ''SSD'' ssd in
     bind_e (getitem df ''Memory'') (\<lambda>mem.
     bind_e (series_apply (extract_storage_cell ''HDD'') mem) (\<lambda>hdd.
     let df = setitem df ''HDD'' hdd in
     drop_cols df [''Memory'']))))"

definition gpu_first_token_cell :: "cell \<Rightarrow> error + cell" where
  "gpu_first_token_cell x =
     (case x of S s \<Rightarrow> bind_e (gpu_first_token s) (\<lambda>t. Inr (S t)) | _ \<Rightarrow> Inl AttributeError)"

definition process_gpu :: "frame \<Rightarrow> error + frame" where
  "process_gpu df =
     bind_e (getitem df ''Gpu'') (\<lambda>gpu.
     bind_e (series_apply gpu_first_token_cell gpu) (\<lambda>brand.
     let df = setitem df ''gpu_brand'' brand in
     drop_cols df [''Gpu'']))"

text \<open>
  \<open>simplify_os\<close> on a cell: the list membership test accepts any value, the substring
  test needs a string.
\<close>

definition simplify_os_cell :: "cell \<Rightarrow> error + cell" where
  "simplify_os_cell x = (case x of S s \<Rightarrow> Inr (S (simplify_os s)) | _ \<Rightarrow> Inl TypeError)"

definition process_os :: "frame \<Rightarrow> error + frame" where
  "process_os df =
     bind_e (getitem df ''OpSys'') (\<lambda>opsys.
     bind_e (series_apply simplify_os_cell opsys) (\<lambda>os.
     let df = setitem df ''os'' os in
     drop_cols df [''OpSys'']))"

text \<open>
  \<open>DataTransformation.drop_id_column\<close> drops the columns the schema lists under
  \<open>drop_columns\<close>; \<open>ModelEvaluation.drop_id_column\<close> drops the column \<open>Unnamed: 0\<close>
  when the frame has it.
\<close>

definition drop_id_column :: "string list \<Rightarrow> frame \<Rightarrow> error + frame" where
  "drop_id_column drop_col df = drop_cols df drop_col"

definition drop_id_column_eval :: "frame \<Rightarrow> error + frame" where
  "drop_id_column_eval df =
     (if ''Unnamed: 0'' \<in> set (columns df) then drop_cols df [''Unnamed: 0''] else Inr df)"

section \<open>The two normalisation paths\<close>

text \<open>
  The schema file and the module of constants are configuration outside the sources:
  the schema is a record of the four entries the code reads, and \<open>TARGET_COLUMN\<close> is a
  parameter of the evaluation.
\<close>

record schema =
  target_column :: string
  num_columns :: "string list"
  one_hot_encoding_columns :: "string list"
  drop_columns :: "string list"

text \<open>
  \<open>DataTransformation.initiate_data_transformation\<close> normalises a split in the order
  clean, screen, memory, cpu, gpu, os, drop id.
\<close>

definition transformation_normalize :: "schema \<Rightarrow> frame \<Rightarrow> error + frame" where
  "transformation_normalize sch df =
     bind_e (clean_data df) (\<lambda>df.
     bind_e (process_screen_resolution df) (\<lambda>df.
     bind_e (process_memory df) (\<lambda>df.
     bind_e (process_cpu df) (\<lambda>df.
     bind_e (process_gpu df) (\<lambda>df.
     bind_e (process_os df) (\<lambda>df.
     drop_id_column (drop_columns sch) df))))))"

text \<open>The features of a split: the normalised frame without the target column.\<close>

definition transformation_features :: "schema \<Rightarrow> frame \<Rightarrow> error + frame" where
  "transformation_features sch df =
     bind_e (transformation_normalize sch df) (\<lambda>df. drop_cols df [target_column sch])"

text \<open>
  \<open>ModelEvaluation.evaluate_model\<close> normalises the features in the order clean, screen,
  cpu, gpu, memory, os, drop id.
\<close>

definition evaluation_normalize :: "frame \<Rightarrow> error + frame" where
  "evaluation_normalize x =
     bind_e (clean_data x) (\<lambda>x.
     bind_e (process_screen_resolution x) (\<lambda>x.
     bind_e (process_cpu x) (\<lambda>x.
     bind_e (process_gpu x) (\<lambda>x.
     bind_e (process_memory x) (\<lambda>x.
     bind_e (process_os x) (\<lambda>x.
     drop_id_column_eval x))))))"

text \<open>It drops the target column first, then normalises.\<close>

definition evaluation_features :: "string \<Rightarrow> frame \<Rightarrow> error + frame" where
  "evaluation_features TARGET_COLUMN test_df =
     bind_e (drop_cols test_df [TARGET_COLUMN]) (\<lambda>x. evaluation_normalize x)"

section \<open>Model evaluation\<close>

record EvaluateModelResponse =
  trained_model_r2_score :: real
  best_model_r2_score :: "real option"
  is_model_accepted :: bool
  difference :: real

text \<open>
  \<open>evaluate_model\<close>. The collaborators outside the sources are parameters: the result
  of loading the trained model, the result of \<open>get_best_model\<close> (the prediction
  function of the model in remote storage, if there is one) and \<open>r2_score\<close>. Every
  exception leaves wrapped in \<open>MyException\<close>.
\<close>

definition evaluate_model ::
  "string \<Rightarrow> frame \<Rightarrow> real \<Rightarrow> error + unit \<Rightarrow> error + (frame \<Rightarrow> error + real list) option
     \<Rightarrow> (series \<Rightarrow> real list \<Rightarrow> error + real) \<Rightarrow> error + EvaluateModelResponse" where
  "evaluate_model TARGET_COLUMN test_df trained_r2 load_object get_best_model r2_score =
     (case
        bind_e (drop_cols test_df [TARGET_COLUMN]) (\<lambda>x.
        bind_e (getitem test_df TARGET_COLUMN) (\<lambda>y.
        bind_e (evaluation_normalize x) (\<lambda>x.
        bind_e load_object (\<lambda>trained_model.
        bind_e get_best_model (\<lambda>best_model.
        bind_e (case best_model of
                  None \<Rightarrow> Inr None
                | Some predict \<Rightarrow>
                    bind_e (predict x) (\<lambda>y_hat_best_model.
                    bind_e (r2_score y y_hat_best_model) (\<lambda>score. Inr (Some score))))
          (\<lambda>best_model_r2_score.
        let tmp_best_model_score =
              (case best_model_r2_score of None \<Rightarrow> 0 | Some score \<Rightarrow> score)
        in Inr \<lparr>trained_model_r2_score = trained_r2,
                best_model_r2_score = best_model_r2_score,
                is_model_accepted = (trained_r2 > tmp_best_model_score),
                difference = trained_r2 - tmp_best_model_score\<rparr>))))))
      of Inl e \<Rightarrow> Inl (MyException e) | Inr result \<Rightarrow> Inr result)"

section \<open>The prediction row\<close>

record LaptopData =
  Company :: cell
  TypeName :: cell
  Ram :: cell
  Weight :: cell
  Touchscreen :: cell
  IPS :: cell
  cpu_name :: cell
  gpu_brand :: cell
  os :: cell
  SSD :: cell
  HDD :: cell

text \<open>The dictionary of the fields, in the order the source writes its keys.\<close>

definition get_laptop_data_as_dict :: "LaptopData \<Rightarrow> (string \<times> cell) list" where
  "get_laptop_data_as_dict d =
     [(''Company'', Company d), (''TypeName'', TypeName d), (''Ram'', Ram d),
      (''Weight'', Weight d), (''Touchscreen'', Touchscreen d), (''IPS'', IPS d),
      (''cpu_name'', cpu_name d), (''gpu_brand'', gpu_brand d), (''os'', os d),
      (''SSD'', SSD d), (''HDD'', HDD d)]"

text \<open>\<open>DataFrame([dict])\<close>: one row, the columns in the order of the keys.\<close>

definition get_laptop_input_data_frame :: "LaptopData \<Rightarrow> frame" where
  "get_laptop_input_data_frame d = map (\<lambda>(k, v). (k, [v])) (get_laptop_data_as_dict d)"

section \<open>The column transformer\<close>

text \<open>
  Modelled from the spec: the column transformer, its scaler and its one-hot encoder are
  classes of the machine-learning library, whose code is not among the sources. The
  sources fix how they are put together (\<open>get_data_transformer_object\<close>): a standard
  scaler named \<open>StandardScaler\<close> on the numeric columns of the schema, a one-hot encoder
  named \<open>one_hot_encoder\<close> with \<open>handle_unknown='ignore'\<close> on the categorical columns
  of the schema, and \<open>remainder='passthrough'\<close>. What fitting and transforming do
  follows section 4.2 of the specification: the numeric columns are standardised with
  the mean and the deviation of the training data, each categorical column becomes one
  indicator column per category seen at fit time, the other columns pass through, and
  the columns are selected by name.
\<close>

datatype handle_unknown = Raise_on_unknown | Ignore_unknown

datatype remainder = Drop_remainder | Passthrough

record preprocessor =
  num_features :: "string list"
  mm_columns :: "string list"
  encoder_handle_unknown :: handle_unknown
  transformer_remainder :: remainder

definition get_data_transformer_object :: "schema \<Rightarrow> preprocessor" where
  "get_data_transformer_object sch =
     \<lparr>num_features = num_columns sch,
      mm_columns = one_hot_encoding_columns sch,
      encoder_handle_unknown = Ignore_unknown,
      transformer_remainder = Passthrough\<rparr>"

record fitted_transformer =
  config :: preprocessor
  scaler_mean :: "real list"
  scaler_scale :: "real list"
  encoder_categories :: "string list list"
  remainder_columns :: "string list"

text \<open>The number of rows of a frame.\<close>

definition nrows :: "frame \<Rightarrow> nat" where
  "nrows X = (case X of [] \<Rightarrow> 0 | (n, col) # rest \<Rightarrow> length col)"

text \<open>Selecting a column by name; the transformer reports a missing one as ValueError.\<close>

definition select_column :: "frame \<Rightarrow> string \<Rightarrow> error + series" where
  "select_column X name = (case map_of X name of None \<Rightarrow> Inl ValueError | Some col \<Rightarrow> Inr col)"

text \<open>The numbers of a numeric column and the strings of a categorical column.\<close>

definition number_of :: "cell \<Rightarrow> error + real" where
  "number_of x = (case x of I n \<Rightarrow> Inr (real_of_int n) | F r \<Rightarrow> Inr r | S s \<Rightarrow> Inl ValueError)"

definition category_of :: "cell \<Rightarrow> error + string" where
  "category_of x = (case x of S s \<Rightarrow> Inr s | _ \<Rightarrow> Inl TypeError)"

fun map_e :: "('a \<Rightarrow> error + 'b) \<Rightarrow> 'a list \<Rightarrow> error + 'b list" where
  "map_e f [] = Inr []"
| "map_e f (x # xs) = bind_e (f x) (\<lambda>y. bind_e (map_e f xs) (\<lambda>ys. Inr (y # ys)))"

definition numeric_column :: "frame \<Rightarrow> string \<Rightarrow> error + real list" where
  "numeric_column X name = bind_e (select_column X name) (map_e number_of)"

definition categorical_column :: "frame \<Rightarrow> string \<Rightarrow> error + string list" where
  "categorical_column X name = bind_e (select_column X name) (map_e category_of)"

text \<open>The statistics of the scaler; a column without spread is scaled by 1.\<close>

definition mean :: "real list \<Rightarrow> real" where
  "mean xs = sum_list xs / real (length xs)"

definition variance :: "real list \<Rightarrow> real" where
  "variance xs = sum_list (map (\<lambda>x. (x - mean xs)\<^sup>2) xs) / real (length xs)"

definition scale_of :: "real list \<Rightarrow> real" where
  "scale_of xs = (if variance xs = 0 then 1 else sqrt (variance xs))"

text \<open>The categories of a column: its distinct strings in ascending order of code points.\<close>

fun str_le :: "string \<Rightarrow> string \<Rightarrow> bool" where
  "str_le [] t = True"
| "str_le (c # s) [] = False"
| "str_le (c # s) (d # t) = ((of_char c :: nat) < of_char d \<or> (c = d \<and> str_le s t))"

fun insort_str :: "string \<Rightarrow> string list \<Rightarrow> string list" where
  "insort_str x [] = [x]"
| "insort_str x (y # ys) = (if str_le x y then x # y # ys else y # insort_str x ys)"

definition unique_sorted :: "string list \<Rightarrow> string list" where
  "unique_sorted xs = foldr insort_str (remdups xs) []"

text \<open>
  Fitting: no rows is an error; the numeric and the categorical columns are looked up by
  name; the remainder is every other column of the training frame, in its order there.
\<close>

definition fit :: "preprocessor \<Rightarrow> frame \<Rightarrow> error + fitted_transformer" where
  "fit p X =
     (if nrows X = 0 then Inl ValueError
      else
        bind_e (map_e (numeric_column X) (num_features p)) (\<lambda>nums.
        bind_e (map_e (categorical_column X) (mm_columns p)) (\<lambda>cats.
        Inr \<lparr>config = p,
             scaler_mean = map mean nums,
             scaler_scale = map scale_of nums,
             encoder_categories = map unique_sorted cats,
             remainder_columns =
               filter (\<lambda>n. n \<notin> set (num_features p) \<and> n \<notin> set (mm_columns p)) (columns X)\<rparr>)))"

text \<open>The names of the output columns, as \<open>get_feature_names_out\<close> writes them.\<close>

definition scaled_name :: "string \<Rightarrow> string" where
  "scaled_name n = ''StandardScaler__'' @ n"

definition indicator_name :: "string \<Rightarrow> string \<Rightarrow> string" where
  "indicator_name n c = ''one_hot_encoder__'' @ n @ ''_'' @ c"

definition remainder_name :: "string \<Rightarrow> string" where
  "remainder_name n = ''remainder__'' @ n"

text \<open>The scaled block: one output column per numeric column.\<close>

definition scale_column :: "frame \<Rightarrow> string \<times> real \<times> real \<Rightarrow> error + string \<times> series" where
  "scale_column X nms =
     (case nms of (n, m, s) \<Rightarrow>
        bind_e (numeric_column X n) (\<lambda>xs. Inr (scaled_name n, map (\<lambda>x. F ((x - m) / s)) xs)))"

text \<open>
  The indicator block of one categorical column: one output column per category. A value
  that is no category of the column is an error unless unknown values are ignored; then
  its row is 0 in every column of the block.
\<close>

definition encode_column ::
  "handle_unknown \<Rightarrow> frame \<Rightarrow> string \<times> string list \<Rightarrow> error + frame" where
  "encode_column hu X ncs =
     (case ncs of (n, cats) \<Rightarrow>
        bind_e (categorical_column X n) (\<lambda>vs.
          if hu = Raise_on_unknown \<and> \<not> list_all (\<lambda>v. v \<in> set cats) vs then Inl ValueError
          else Inr (map (\<lambda>c. (indicator_name n c, map (\<lambda>v. F (if v = c then 1 else 0)) vs)) cats)))"

definition pass_column :: "frame \<Rightarrow> string \<Rightarrow> error + string \<times> series" where
  "pass_column X n = bind_e (select_column X n) (\<lambda>col. Inr (remainder_name n, col))"

text \<open>
  Transforming: the blocks side by side, in the order scaler, encoder, remainder. The
  result is the output matrix, each column with its name.
\<close>

definition transform :: "fitted_transformer \<Rightarrow> frame \<Rightarrow> error + frame" where
  "transform ft X =
     (if nrows X = 0 then Inl ValueError
      else
        bind_e (map_e (scale_column X)
                  (zip (num_features (config ft)) (zip (scaler_mean ft) (scaler_scale ft)))) (\<lambda>scaled.
        bind_e (map_e (encode_column (encoder_handle_unknown (config ft)) X)
                  (zip (mm_columns (config ft)) (encoder_categories ft))) (\<lambda>encoded.
        bind_e (if transformer_remainder (config ft) = Passthrough
                then map_e (pass_column X) (remainder_columns ft) else Inr []) (\<lambda>passed.
        Inr (scaled @ concat encoded @ passed)))))"

text \<open>The names of the output columns are read off the fitted transformer alone.\<close>

definition feature_names_out :: "fitted_transformer \<Rightarrow> string list" where
  "feature_names_out ft =
     map scaled_name (num_features (config ft))
     @ concat (map (\<lambda>(n, cats). map (indicator_name n) cats)
                 (zip (mm_columns (config ft)) (encoder_categories ft)))
     @ (if transformer_remainder (config ft) = Passthrough
        then map remainder_name (remainder_columns ft) else [])"

definition fit_transform :: "preprocessor \<Rightarrow> frame \<Rightarrow> error + fitted_transformer \<times> frame" where
  "fit_transform p X = bind_e (fit p X) (\<lambda>ft. bind_e (transform ft X) (\<lambda>Y. Inr (ft, Y)))"

section \<open>The training run\<close>

record DataTransformationConfig =
  transformed_object_file_path :: string
  transformed_train_file_path :: string
  transformed_test_file_path :: string

datatype artifact = Transformer_object fitted_transformer | Array frame

type_synonym storage = "string \<rightharpoonup> artifact"

record DataTransformationArtifact =
  artifact_object_file_path :: string
  artifact_train_file_path :: string
  artifact_test_file_path :: string

text \<open>
  \<open>initiate_data_transformation\<close> on the two frames \<open>read_data\<close> returns. Everything up
  to the arrays is computed before the first save; an exception anywhere leaves as
  \<open>MyException\<close> and nothing has been saved. The arrays carry the target as last column.
\<close>

definition initiate_data_transformation ::
  "schema \<Rightarrow> DataTransformationConfig \<Rightarrow> frame \<Rightarrow> frame \<Rightarrow> storage
     \<Rightarrow> (error + DataTransformationArtifact) \<times> storage" where
  "initiate_data_transformation sch cfg train_csv test_csv files =
     (case
        bind_e (transformation_normalize sch train_csv) (\<lambda>train_df.
        bind_e (drop_cols train_df [target_column sch]) (\<lambda>X_train.
        bind_e (getitem train_df (target_column sch)) (\<lambda>y_train.
        bind_e (transformation_normalize sch test_csv) (\<lambda>test_df.
        bind_e (drop_cols test_df [target_column sch]) (\<lambda>X_test.
        bind_e (getitem test_df (target_column sch)) (\<lambda>y_test.
        bind_e (fit_transform (get_data_transformer_object sch) X_train) (\<lambda>(pre, X_train_transformed).
        bind_e (transform pre X_test) (\<lambda>X_test_transformed.
        Inr (pre,
             X_train_transformed @ [(target_column sch, y_train)],
             X_test_transformed @ [(target_column sch, y_test)])))))))))
      of Inl e \<Rightarrow> (Inl (MyException e), files)
       | Inr (pre, train_final_array, test_final_array) \<Rightarrow>
           (Inr \<lparr>artifact_object_file_path = transformed_object_file_path cfg,
                  artifact_train_file_path = transformed_train_file_path cfg,
                  artifact_test_file_path = transformed_test_file_path cfg\<rparr>,
            ((files(transformed_object_file_path cfg \<mapsto> Transformer_object pre))
                   (transformed_train_file_path cfg \<mapsto> Array train_final_array))
                   (transformed_test_file_path cfg \<mapsto> Array test_final_array)))"

section \<open>The normaliser on frames in memory\<close>

text \<open>
  The methods assign columns to the frame object they are given. To see what a caller
  can observe, the frames live in a memory: a list of frames, a reference being a
  position in it. An assignment \<open>df[name] = rhs\<close> evaluates the right-hand side on the
  frame at the reference and, unless that raises, updates the frame in place;
  \<open>df.drop(columns=names)\<close> leaves its frame alone and returns a new one.
\<close>

type_synonym memory = "frame list"

type_synonym reference = nat

definition bind_m ::
  "(memory \<Rightarrow> (error + 'a) \<times> memory) \<Rightarrow> ('a \<Rightarrow> memory \<Rightarrow> (error + 'b) \<times> memory)
     \<Rightarrow> memory \<Rightarrow> (error + 'b) \<times> memory" where
  "bind_m m k h = (case m h of (Inl e, h') \<Rightarrow> (Inl e, h') | (Inr x, h') \<Rightarrow> k x h')"

definition return_m :: "'a \<Rightarrow> memory \<Rightarrow> (error + 'a) \<times> memory" where
  "return_m x h = (Inr x, h)"

definition assign ::
  "reference \<Rightarrow> string \<Rightarrow> (frame \<Rightarrow> error + series) \<Rightarrow> memory \<Rightarrow> (error + unit) \<times> memory" where
  "assign df name rhs h =
     (case rhs (h ! df) of
        Inl e \<Rightarrow> (Inl e, h)
      | Inr col \<Rightarrow> (Inr (), h[df := setitem (h ! df) name col]))"

definition drop_new ::
  "reference \<Rightarrow> string list \<Rightarrow> memory \<Rightarrow> (error + reference) \<times> memory" where
  "drop_new df names h =
     (case drop_cols (h ! df) names of
        Inl e \<Rightarrow> (Inl e, h)
      | Inr f \<Rightarrow> (Inr (length h), h @ [f]))"

definition clean_data_mem :: "reference \<Rightarrow> memory \<Rightarrow> (error + reference) \<times> memory" where
  "clean_data_mem df =
     bind_m (assign df ''Ram'' (\<lambda>f.
               bind_e (getitem f ''Ram'') (\<lambda>ram.
               bind_e (str_replace_col ''GB'' [] ram) astype_int))) (\<lambda>u.
     bind_m (assign df ''Weight'' (\<lambda>f.
               bind_e (getitem f ''Weight'') (\<lambda>weight.
               bind_e (str_replace_col ''kg'' [] weight) astype_float))) (\<lambda>u.
     return_m df))"

definition process_screen_resolution_mem ::
  "reference \<Rightarrow> memory \<Rightarrow> (error + reference) \<times> memory" where
  "process_screen_resolution_mem df =
     bind_m (assign df ''Touchscreen'' (\<lambda>f.
               bind_e (getitem f ''ScreenResolution'') (series_apply (flag_of ''Touchscreen'')))) (\<lambda>u.
     bind_m (assign df ''IPS'' (\<lambda>f.
               bind_e (getitem f ''ScreenResolution'') (series_apply (flag_of ''IPS'')))) (\<lambda>u.
     drop_new df [''ScreenResolution'', ''Inches'']))"

definition process_cpu_mem :: "reference \<Rightarrow> memory \<Rightarrow> (error + reference) \<times> memory" where
  "process_cpu_mem df =
     bind_m (assign df ''cpu_name'' (\<lambda>f.
               bind_e (getitem f ''Cpu'') (series_apply cpu_candidate_cell))) (\<lambda>u.
     bind_m (assign df ''cpu_name'' (\<lambda>f.
               bind_e (getitem f ''cpu_name'') (series_apply categorize_cpu_cell))) (\<lambda>u.
     drop_new df [''Cpu'']))"

definition process_memory_mem :: "reference \<Rightarrow> memory \<Rightarrow> (error + reference) \<times> memory" where
  "process_memory_mem df =
     bind_m (assign df ''SSD'' (\<lambda>f.
               bind_e (getitem f ''Memory'') (series_apply (extract_storage_cell ''SSD'')))) (\<lambda>u.
     bind_m (assign df ''HDD'' (\<lambda>f.
               bind_e (getitem f ''Memory'') (series_apply (extract_storage_cell ''HDD'')))) (\<lambda>u.
     drop_new df [''Memory'']))"

definition process_gpu_mem :: "reference \<Rightarrow> memory \<Rightarrow> (error + reference) \<times> memory" where
  "process_gpu_mem df =
     bind_m (assign df ''gpu_brand'' (\<lambda>f.
               bind_e (getitem f ''Gpu'') (series_apply gpu_first_token_cell))) (\<lambda>u.
     drop_new df [''Gpu''])"

definition process_os_mem :: "reference \<Rightarrow> memory \<Rightarrow> (error + reference) \<times> memory" where
  "process_os_mem df =
     bind_m (assign df ''os'' (\<lambda>f.
               bind_e (getitem f ''OpSys'') (series_apply simplify_os_cell))) (\<lambda>u.
     drop_new df [''OpSys''])"

text \<open>
  The six transforms in the order of the training path, each on the frame the one before
  returned.
\<close>

definition normalize_mem :: "reference \<Rightarrow> memory \<Rightarrow> (error + reference) \<times> memory" where
  "normalize_mem df =
     bind_m (clean_data_mem df) (\<lambda>df.
     bind_m (process_screen_resolution_mem df) (\<lambda>df.
     bind_m (process_memory_mem df) (\<lambda>df.
     bind_m (process_cpu_mem df) (\<lambda>df.
     bind_m (process_gpu_mem df) (\<lambda>df.
     process_os_mem df)))))"

declare split_ws.simps [simp del]

declare str_replace.simps [simp del]

section \<open>Basic facts\<close>

lemma bind_e_simps [simp]:
  "bind_e (Inl e) k = Inl e" "bind_e (Inr x) k = k x"
  by (simp_all add: bind_e_def)

section \<open>Facts about the string primitives\<close>


lemma split_ws_Nil_iff: "split_ws s = [] \<longleftrightarrow> (\<forall>c\<in>set s. is_space c)"
  by (subst split_ws.simps) (auto simp: Let_def dropWhile_eq_Nil_conv)

text \<open>Every token is a non-empty run of non-whitespace characters.\<close>

lemma split_ws_tokens:
  "t \<in> set (split_ws s) \<Longrightarrow> t \<noteq> [] \<and> (\<forall>c\<in>set t. non_space c)"
proof (induction s rule: split_ws.induct)
  case (1 s)
  define r where "r = dropWhile is_space s"
  show ?case
  proof (cases "r = []")
    case True
    then have "split_ws s = []" by (subst split_ws.simps) (simp add: r_def)
    with 1(2) show ?thesis by simp
  next
    case False
    then have eq: "split_ws s = takeWhile non_space r # split_ws (dropWhile non_space r)"
      by (subst split_ws.simps) (simp add: r_def Let_def)
    from False obtain c cs where rc: "r = c # cs" by (cases r) auto
    have nc: "non_space c" using rc r_def by (metis dropWhile_eq_Cons_conv non_space_def)
    show ?thesis
    proof (cases "t = takeWhile non_space r")
      case True
      then show ?thesis using nc rc by (auto dest: set_takeWhileD)
    next
      case False
      with 1(2) eq have "t \<in> set (split_ws (dropWhile non_space r))" by simp
      with 1(1) [OF r_def \<open>r \<noteq> []\<close>] show ?thesis by simp
    qed
  qed
qed

lemma split_ws_space: "split_ws (CHR '' '' # rest) = split_ws rest"
proof -
  have sp: "is_space (CHR '' '')" by (simp add: is_space_def)
  show ?thesis
    by (subst split_ws.simps, subst (2) split_ws.simps) (simp only: dropWhile.simps sp if_True)
qed

lemma split_ws_token_Cons:
  assumes "t \<noteq> []" "\<forall>c\<in>set t. non_space c"
  shows "split_ws (t @ CHR '' '' # rest) = t # split_ws rest"
proof -
  have sp: "\<not> non_space (CHR '' '')" by (simp add: is_space_def non_space_def)
  have "\<not> is_space (hd t)" using assms by (cases t) (auto simp: non_space_def)
  then have d1: "dropWhile is_space (t @ CHR '' '' # rest) = t @ CHR '' '' # rest"
    using assms(1) by (cases t) auto
  have t1: "takeWhile non_space (t @ CHR '' '' # rest) = t"
    using assms sp by (simp add: takeWhile_append2)
  have d2: "dropWhile non_space (t @ CHR '' '' # rest) = CHR '' '' # rest"
    using assms sp by (simp add: dropWhile_append2)
  have ne: "t @ CHR '' '' # rest \<noteq> []" by simp
  show ?thesis
    by (subst split_ws.simps) (simp only: d1 t1 d2 Let_def ne if_False split_ws_space)
qed

lemma split_ws_token:
  assumes "t \<noteq> []" "\<forall>c\<in>set t. non_space c"
  shows "split_ws t = [t]"
proof -
  have "\<not> is_space (hd t)" using assms by (cases t) (auto simp: non_space_def)
  then have e1: "dropWhile is_space t = t" using assms(1) by (cases t) auto
  have e2: "takeWhile non_space t = t" using assms by simp
  have e3: "dropWhile non_space t = []" using assms by simp
  have e4: "split_ws [] = []" by (subst split_ws.simps) simp
  show ?thesis
    by (subst split_ws.simps) (simp only: e1 e2 e3 e4 Let_def assms(1) if_False)
qed

text \<open>Splitting what \<open>' '.join\<close> made of tokens gives the tokens back.\<close>

lemma split_ws_join:
  "(\<forall>t\<in>set ts. t \<noteq> [] \<and> (\<forall>c\<in>set t. non_space c)) \<Longrightarrow> split_ws (join '' '' ts) = ts"
proof (induction ts)
  case Nil
  show ?case by (subst split_ws.simps) simp
next
  case (Cons t ts)
  show ?case
  proof (cases ts)
    case Nil
    with Cons.prems show ?thesis by (simp add: split_ws_token)
  next
    case (Cons y ys)
    have "split_ws (t @ CHR '' '' # join '' '' ts) = t # split_ws (join '' '' ts)"
      using Cons.prems by (intro split_ws_token_Cons) auto
    moreover have "split_ws (join '' '' ts) = ts" using Cons.IH Cons.prems by simp
    ultimately show ?thesis using Cons by simp
  qed
qed

lemma split_ws_candidate: "split_ws (cpu_candidate x) = take 3 (split_ws x)"
  unfolding cpu_candidate_def
  by (rule split_ws_join) (auto dest!: in_set_takeD split_ws_tokens)

section \<open>The rules on one-row frames\<close>


lemma process_cpu_one:
  "process_cpu [(''Cpu'', [S x])] =
     bind_e (categorize_cpu (cpu_candidate x)) (\<lambda>t. Inr [(''cpu_name'', [S t])])"
  by (cases "categorize_cpu (cpu_candidate x)")
     (simp_all add: process_cpu_def cpu_candidate_cell_def categorize_cpu_cell_def
        drop_cols_def columns_def getitem_def)

lemma process_gpu_one:
  "process_gpu [(''Gpu'', [S x])] =
     bind_e (gpu_first_token x) (\<lambda>t. Inr [(''gpu_brand'', [S t])])"
  by (cases "gpu_first_token x")
     (simp_all add: process_gpu_def gpu_first_token_cell_def drop_cols_def columns_def getitem_def)


section \<open>Operating systems\<close>


section \<open>Processors\<close>



section \<open>Blank descriptors\<close>

text \<open>
  Claim C10. A row whose processor or graphics descriptor is empty or all whitespace has
  no first token: \<open>process_cpu\<close> and \<open>process_gpu\<close> raise IndexError on it, the plain
  exception of indexing an empty list, and no parsing error that would name the row or
  the field.
\<close>

theorem blank_descriptor_index_error:
  assumes "\<forall>c\<in>set x. is_space c"
  shows "process_cpu [(''Cpu'', [S x])] = Inl IndexError
       \<and> process_gpu [(''Gpu'', [S x])] = Inl IndexError"
proof -
  have e: "split_ws x = []" using assms by (simp add: split_ws_Nil_iff)
  then have "cpu_candidate x = []" by (simp add: cpu_candidate_def)
  then have "categorize_cpu (cpu_candidate x) = Inl IndexError"
    using e split_ws_candidate [of x] by (simp add: categorize_cpu_def)
  moreover have "gpu_first_token x = Inl IndexError" using e by (simp add: gpu_first_token_def)
  ultimately show ?thesis by (simp add: process_cpu_one process_gpu_one)
qed

theorem blank_descriptor_index_error_witness:
  "process_cpu [(''Cpu'', [S ''  ''])] = Inl IndexError
   \<and> process_gpu [(''Gpu'', [S ''  ''])] = Inl IndexError"
proof -
  have h: "\<forall>c\<in>set ''  ''. is_space c" by (simp add: is_space_def)
  show ?thesis using blank_descriptor_index_error [OF h] by simp
qed

end
